theory Spec2Isabelle
  imports Complex_Main
begin

section \<open>Export of a vector store with 3D projections (scripts/export-chromadb.py)\<close>

text \<open>
  The script reads a collection of embeddings, computes three 3D projections of them,
  rescales each projection into a common box and writes everything to one JSON document.

  Conventions of the embedding.
  \<^item> A numpy array of shape \<open>(N, k)\<close> is the list of its \<open>N\<close> rows, each a list of \<open>k\<close>
    numbers; an array of shape \<open>(k,)\<close> is a list of \<open>k\<close> numbers.
  \<^item> An exception or a call of \<open>exit\<close> is a value \<open>Inl e\<close> of the result.
\<close>

subsection \<open>float64\<close>

text \<open>
  A float64 is a finite number, an infinity or NaN. An operation on finite numbers gives
  the exact result when its magnitude is below the overflow threshold of round-to-nearest,
  \<open>2^1024 - 2^970\<close>, and the infinity of its sign otherwise; the operations on infinities
  and NaN, and division by zero, follow IEEE 754, as numpy does (a warning, no exception).
  Rounding of results in range, underflow and the sign of zero are not represented.
\<close>

datatype float64 = Finite real | PosInf | NegInf | NaN

definition overflow_threshold :: real where
  "overflow_threshold = 2 ^ 1024 - 2 ^ 970"

definition overflow :: "real \<Rightarrow> float64" where
  "overflow r =
     (if overflow_threshold \<le> r then PosInf
      else if r \<le> - overflow_threshold then NegInf
      else Finite r)"

fun fl_sub :: "float64 \<Rightarrow> float64 \<Rightarrow> float64" where
  "fl_sub (Finite a) (Finite b) = overflow (a - b)"
| "fl_sub (Finite a) PosInf = NegInf"
| "fl_sub (Finite a) NegInf = PosInf"
| "fl_sub PosInf (Finite b) = PosInf"
| "fl_sub PosInf NegInf = PosInf"
| "fl_sub NegInf (Finite b) = NegInf"
| "fl_sub NegInf PosInf = NegInf"
| "fl_sub _ _ = NaN"

fun fl_div :: "float64 \<Rightarrow> float64 \<Rightarrow> float64" where
  "fl_div (Finite a) (Finite b) =
     (if b = 0 then (if a = 0 then NaN else if 0 < a then PosInf else NegInf)
      else overflow (a / b))"
| "fl_div (Finite a) PosInf = Finite 0"
| "fl_div (Finite a) NegInf = Finite 0"
| "fl_div PosInf (Finite b) = (if 0 \<le> b then PosInf else NegInf)"
| "fl_div NegInf (Finite b) = (if 0 \<le> b then NegInf else PosInf)"
| "fl_div _ _ = NaN"

fun fl_mul :: "float64 \<Rightarrow> float64 \<Rightarrow> float64" where
  "fl_mul (Finite a) (Finite b) = overflow (a * b)"
| "fl_mul (Finite a) PosInf = (if a = 0 then NaN else if 0 < a then PosInf else NegInf)"
| "fl_mul (Finite a) NegInf = (if a = 0 then NaN else if 0 < a then NegInf else PosInf)"
| "fl_mul PosInf (Finite b) = (if b = 0 then NaN else if 0 < b then PosInf else NegInf)"
| "fl_mul NegInf (Finite b) = (if b = 0 then NaN else if 0 < b then NegInf else PosInf)"
| "fl_mul PosInf PosInf = PosInf"
| "fl_mul NegInf NegInf = PosInf"
| "fl_mul PosInf NegInf = NegInf"
| "fl_mul NegInf PosInf = NegInf"
| "fl_mul _ _ = NaN"

text \<open>The minimum and maximum of numpy's reductions: NaN wins over every number.\<close>

fun fl_min :: "float64 \<Rightarrow> float64 \<Rightarrow> float64" where
  "fl_min NaN _ = NaN"
| "fl_min _ NaN = NaN"
| "fl_min NegInf _ = NegInf"
| "fl_min _ NegInf = NegInf"
| "fl_min PosInf y = y"
| "fl_min x PosInf = x"
| "fl_min (Finite a) (Finite b) = Finite (min a b)"

fun fl_max :: "float64 \<Rightarrow> float64 \<Rightarrow> float64" where
  "fl_max NaN _ = NaN"
| "fl_max _ NaN = NaN"
| "fl_max PosInf _ = PosInf"
| "fl_max _ PosInf = PosInf"
| "fl_max NegInf y = y"
| "fl_max x NegInf = x"
| "fl_max (Finite a) (Finite b) = Finite (max a b)"




type_synonym vector = "float64 list"
type_synonym matrix = "float64 list list"

abbreviation numbers :: "real list list \<Rightarrow> matrix" where
  "numbers rows \<equiv> map (map Finite) rows"

datatype error =
    SystemExit nat
  | ValueError
  | TypeError
  | LibraryError string

subsection \<open>Reductions along axis 0\<close>

text \<open>
  \<open>points.min(axis=0)\<close> and \<open>points.max(axis=0)\<close>: the elementwise minimum (maximum) of the
  rows. numpy raises ValueError for a reduction without identity over zero rows.
\<close>

definition np_min_axis0 :: "matrix \<Rightarrow> error + vector" where
  "np_min_axis0 points =
     (case points of [] \<Rightarrow> Inl ValueError | r # rs \<Rightarrow> Inr (foldl (map2 fl_min) r rs))"

definition np_max_axis0 :: "matrix \<Rightarrow> error + vector" where
  "np_max_axis0 points =
     (case points of [] \<Rightarrow> Inl ValueError | r # rs \<Rightarrow> Inr (foldl (map2 fl_max) r rs))"

subsection \<open>normalize_projection (lines 87-98)\<close>

text \<open>
  \<^verbatim>\<open>ranges = max_vals - min_vals; ranges[ranges == 0] = 1\<close>
\<close>

definition nonzero :: "float64 \<Rightarrow> float64" where
  "nonzero r = (if r = Finite 0 then Finite 1 else r)"

definition nonzero_ranges :: "vector \<Rightarrow> vector \<Rightarrow> vector" where
  "nonzero_ranges min_vals max_vals = map nonzero (map2 fl_sub max_vals min_vals)"

text \<open>
  \<^verbatim>\<open>normalized = (points - min_vals) / ranges - 0.5; normalized *= scale\<close>
  The vectors \<open>min_vals\<close> and \<open>ranges\<close> are broadcast over the rows of \<open>points\<close>.
\<close>

definition normalize_projection :: "matrix \<Rightarrow> float64 \<Rightarrow> error + matrix" where
  "normalize_projection points scale =
     (case np_min_axis0 points of
        Inl e \<Rightarrow> Inl e
      | Inr min_vals \<Rightarrow>
          (case np_max_axis0 points of
             Inl e \<Rightarrow> Inl e
           | Inr max_vals \<Rightarrow>
               (let ranges = nonzero_ranges min_vals max_vals;
                    normalized =
                      map (\<lambda>row. map (\<lambda>v. fl_sub v (Finite 0.5))
                                  (map2 fl_div (map2 fl_sub row min_vals) ranges))
                        points;
                    normalized = map (map (\<lambda>v. fl_mul v scale)) normalized
                in Inr normalized)))"

subsection \<open>The perplexity of the t-SNE call (line 73)\<close>

definition perplexity :: "nat \<Rightarrow> nat" where
  "perplexity n_samples = min 30 (max 5 (n_samples div 5))"

subsection \<open>normalize_projection on a store of arrays\<close>

text \<open>
  The same function with the arrays it touches held in a store, to speak about what it
  writes. An address is an index into the store; every numpy operation that builds an array
  allocates a new cell at the end; the two in-place statements
  \<^verbatim>\<open>ranges[ranges == 0] = 1\<close> and \<^verbatim>\<open>normalized *= scale\<close> overwrite the cell of their
  target. The argument \<open>points\<close> is the address of the caller's array. \<open>tolist()\<close> returns the
  content of \<open>normalized\<close> as a new Python list.

  For a one-dimensional argument \<open>min\<close> and \<open>max\<close> return scalars, and the item assignment of
  line 93 raises TypeError (ValueError already at line 90 when the array is empty).
\<close>

datatype ndarray = Arr1 vector | Arr2 matrix

type_synonym addr = nat
type_synonym store = "ndarray list"

definition alloc :: "store \<Rightarrow> ndarray \<Rightarrow> addr \<times> store" where
  "alloc s a = (length s, s @ [a])"

definition vec_at :: "store \<Rightarrow> addr \<Rightarrow> vector" where
  "vec_at s p = (case s ! p of Arr1 v \<Rightarrow> v | Arr2 m \<Rightarrow> [])"

definition mat_at :: "store \<Rightarrow> addr \<Rightarrow> matrix" where
  "mat_at s p = (case s ! p of Arr1 v \<Rightarrow> [] | Arr2 m \<Rightarrow> m)"

definition normalize_projection_store :: "store \<Rightarrow> addr \<Rightarrow> float64 \<Rightarrow> (error + matrix) \<times> store" where
  "normalize_projection_store s points scale =
     (case s ! points of
        Arr1 v \<Rightarrow> (Inl (if v = [] then ValueError else TypeError), s)
      | Arr2 _ \<Rightarrow>
          (case np_min_axis0 (mat_at s points) of
             Inl e \<Rightarrow> (Inl e, s)
           | Inr mn \<Rightarrow>
               (let (min_vals, s) = alloc s (Arr1 mn) in
                case np_max_axis0 (mat_at s points) of
                  Inl e \<Rightarrow> (Inl e, s)
                | Inr mx \<Rightarrow>
                    (let (max_vals, s) = alloc s (Arr1 mx);
                         (ranges, s) =
                           alloc s (Arr1 (map2 fl_sub (vec_at s max_vals) (vec_at s min_vals)));
                         s = s[ranges := Arr1 (map nonzero (vec_at s ranges))];
                         (t1, s) =
                           alloc s (Arr2 (map (\<lambda>row. map2 fl_sub row (vec_at s min_vals))
                                            (mat_at s points)));
                         (t2, s) =
                           alloc s (Arr2 (map (\<lambda>row. map2 fl_div row (vec_at s ranges)) (mat_at s t1)));
                         (normalized, s) =
                           alloc s (Arr2 (map (map (\<lambda>v. fl_sub v (Finite 0.5))) (mat_at s t2)));
                         s = s[normalized := Arr2 (map (map (\<lambda>v. fl_mul v scale)) (mat_at s normalized))]
                     in (Inr (mat_at s normalized), s)))))"

subsection \<open>compute_projections (lines 42-84)\<close>

text \<open>
  The three projection algorithms belong to scikit-learn and umap-learn, not to this
  program: they are parameters. Each takes the embedding matrix and returns a matrix or
  raises. Their constructor arguments are constants of the program (3 components, 15
  neighbours, minimum distance 0.1, cosine metric, seed 42, 1000 iterations), except
  the perplexity of t-SNE, which the program computes and which is therefore an argument.
\<close>

record libs =
  pca_fit_transform :: "matrix \<Rightarrow> error + matrix"
  umap_fit_transform :: "matrix \<Rightarrow> error + matrix"
  tsne_fit_transform :: "nat \<Rightarrow> matrix \<Rightarrow> error + matrix"

text \<open>
  What the program prints. The three messages about a library that is not installed
  (lines 25, 32, 38) share a constructor that carries the name of the package.
\<close>

datatype message =
    NotInstalled string
  | Connecting string
  | CouldNotGetCollection string
  | AvailableCollections "string list"
  | FoundCollection string nat
  | ExportingDocuments nat
  | ComputingProjections nat
  | ComputingPCA | PCADone
  | ComputingUMAP | UMAPDone
  | ComputingTSNE | TSNEDone
  | SkippingProjections
  | ExportedTo string

type_synonym projections = "(string \<times> matrix) list"

text \<open>
  The dictionary \<open>projections\<close> is the list of its items in insertion order. The function
  takes the lines printed so far and returns them extended.
\<close>

definition compute_projections ::
  "libs \<Rightarrow> matrix \<Rightarrow> message list \<Rightarrow> (error + projections) \<times> message list" where
  "compute_projections L embeddings out =
     (let n_samples = length embeddings;
          out = out @ [ComputingProjections n_samples, ComputingPCA]
      in case pca_fit_transform L embeddings of
           Inl e \<Rightarrow> (Inl e, out)
         | Inr pca_result \<Rightarrow>
      (case normalize_projection pca_result (Finite 40) of
           Inl e \<Rightarrow> (Inl e, out)
         | Inr pca \<Rightarrow>
      (let out = out @ [PCADone, ComputingUMAP]
       in case umap_fit_transform L embeddings of
           Inl e \<Rightarrow> (Inl e, out)
         | Inr umap_result \<Rightarrow>
      (case normalize_projection umap_result (Finite 40) of
           Inl e \<Rightarrow> (Inl e, out)
         | Inr umap \<Rightarrow>
      (let out = out @ [UMAPDone, ComputingTSNE]
       in case tsne_fit_transform L (perplexity n_samples) embeddings of
           Inl e \<Rightarrow> (Inl e, out)
         | Inr tsne_result \<Rightarrow>
      (case normalize_projection tsne_result (Finite 40) of
           Inl e \<Rightarrow> (Inl e, out)
         | Inr tsne \<Rightarrow>
             (Inr [(''pca'', pca), (''umap'', umap), (''tsne'', tsne)], out @ [TSNEDone])))))))"

subsection \<open>export_chromadb (lines 101-182)\<close>

datatype scalar = SStr string | SInt int | SFloat real | SBool bool

type_synonym metadata = "(string \<times> scalar) list"

text \<open>
  The dictionary returned by \<open>collection.get\<close>. The key \<open>ids\<close> is always there; the program
  reads the other three with \<open>data.get\<close> and replaces \<open>None\<close> by the empty list.
\<close>

record get_result =
  r_ids :: "string list"
  r_embeddings :: "matrix option"
  r_documents :: "string list option"
  r_metadatas :: "metadata list option"

text \<open>
  Modelled from the spec: the vector store client (chromadb) is not part of the program. A
  collection is what \<open>get\<close> without a limit returns; with a limit, \<open>get\<close> returns the first
  \<open>limit\<close> entries of each sequence (section 4.1: length = min(available, limit)).
\<close>

definition collection_get :: "get_result \<Rightarrow> int option \<Rightarrow> get_result" where
  "collection_get c limit =
     (case limit of
        None \<Rightarrow> c
      | Some l \<Rightarrow>
          \<lparr>r_ids = take (nat l) (r_ids c),
           r_embeddings = map_option (take (nat l)) (r_embeddings c),
           r_documents = map_option (take (nat l)) (r_documents c),
           r_metadatas = map_option (take (nat l)) (r_metadatas c)\<rparr>)"

record document =
  d_id :: string
  d_text :: string
  d_embedding :: vector
  d_metadata :: metadata

record header =
  h_name :: string
  h_embedding_model :: string
  h_embedding_dim :: nat
  h_count :: nat

text \<open>The output dictionary; the key \<open>projections\<close> may be absent.\<close>

record corpus_export =
  e_metadata :: header
  e_documents :: "document list"
  e_projections :: "projections option"

text \<open>
  The environment of a run: the collections of the store at \<open>chroma_path\<close> by name, the
  files by path (a JSON file is the value dumped into it), and the lines printed.
  Directories and failures of the file system are not represented: \<open>mkdir\<close> and \<open>open\<close>
  succeed.
\<close>

record world =
  collections :: "(string \<times> get_result) list"
  files :: "string \<rightharpoonup> corpus_export"
  stdout :: "message list"

definition print :: "message \<Rightarrow> world \<Rightarrow> world" where
  "print m w = w\<lparr>stdout := stdout w @ [m]\<rparr>"

text \<open>Python's truth value of \<open>limit\<close>: \<open>None\<close> and 0 are false.\<close>

definition truthy :: "int option \<Rightarrow> bool" where
  "truthy limit = (case limit of None \<Rightarrow> False | Some l \<Rightarrow> l \<noteq> 0)"

text \<open>Lines 123-129.\<close>

definition fetch :: "get_result \<Rightarrow> int option \<Rightarrow> get_result" where
  "fetch collection limit =
     (if truthy limit then collection_get collection limit
      else collection_get collection None)"

text \<open>\<open>float(x)\<close> of a numpy float is the same number.\<close>

definition py_float :: "float64 \<Rightarrow> float64" where
  "py_float x = x"

text \<open>Lines 134-166: the output dictionary before the projections are added.\<close>

definition build_output :: "get_result \<Rightarrow> corpus_export" where
  "build_output data =
     (let embeddings = (case r_embeddings data of None \<Rightarrow> [] | Some e \<Rightarrow> e);
          documents = (case r_documents data of None \<Rightarrow> [] | Some d \<Rightarrow> d);
          metadatas = (case r_metadatas data of None \<Rightarrow> [] | Some m \<Rightarrow> m);
          embedding_dim = (if length embeddings > 0 then length (embeddings ! 0) else 0)
      in \<lparr>e_metadata =
            \<lparr>h_name = ''Claude Memory'',
             h_embedding_model = ''sentence-transformers/all-mpnet-base-v2'',
             h_embedding_dim = embedding_dim,
             h_count = length (r_ids data)\<rparr>,
          e_documents =
            map (\<lambda>i. \<lparr>d_id = r_ids data ! i,
                      d_text = (if i < length documents then documents ! i else []),
                      d_embedding =
                        (if i < length embeddings then map py_float (embeddings ! i) else []),
                      d_metadata = (if i < length metadatas then metadatas ! i else [])\<rparr>)
              [0..<length (r_ids data)],
          e_projections = None\<rparr>)"

text \<open>
  \<open>np.array(embeddings)\<close> (line 147): numpy builds the two-dimensional array when the rows
  have one length and raises ValueError when they have not.
\<close>

definition np_array :: "matrix \<Rightarrow> error + matrix" where
  "np_array rows =
     (case rows of
        [] \<Rightarrow> Inr []
      | r # rs \<Rightarrow> if list_all (\<lambda>x. length x = length r) rs then Inr rows else Inl ValueError)"

text \<open>Lines 175-182.\<close>

definition write_output :: "string \<Rightarrow> corpus_export \<Rightarrow> world \<Rightarrow> world" where
  "write_output output_file output w =
     print (ExportedTo output_file) (w\<lparr>files := (files w)(output_file \<mapsto> output)\<rparr>)"

definition export_chromadb ::
  "libs \<Rightarrow> string \<Rightarrow> string \<Rightarrow> string \<Rightarrow> int option \<Rightarrow> bool \<Rightarrow> world \<Rightarrow> (error + unit) \<times> world" where
  "export_chromadb L chroma_path collection_name output_file limit skip_projections w =
     (let w = print (Connecting chroma_path) w
      in case map_of (collections w) collection_name of
           None \<Rightarrow>
             (let w = print (CouldNotGetCollection collection_name) w;
                  w = print (AvailableCollections (map fst (collections w))) w
              in (Inl (SystemExit 1), w))
         | Some collection \<Rightarrow>
             (let w = print (FoundCollection collection_name (length (r_ids collection))) w;
                  data = fetch collection limit;
                  w = print (ExportingDocuments (length (r_ids data))) w;
                  embeddings = (case r_embeddings data of None \<Rightarrow> [] | Some e \<Rightarrow> e)
              in case np_array embeddings of
                   Inl e \<Rightarrow> (Inl e, w)
                 | Inr embeddings_array \<Rightarrow>
                     (let output = build_output data
                      in if \<not> skip_projections \<and> length embeddings > 0 then
                           (case compute_projections L embeddings_array (stdout w) of
                              (Inl e, out) \<Rightarrow> (Inl e, w\<lparr>stdout := out\<rparr>)
                            | (Inr p, out) \<Rightarrow>
                                (Inr (),
                                 write_output output_file (output\<lparr>e_projections := Some p\<rparr>)
                                   (w\<lparr>stdout := out\<rparr>)))
                         else
                           (Inr (),
                            write_output output_file output (print SkippingProjections w)))))"

subsection \<open>The imports (lines 22-39) and the exit status\<close>

text \<open>
  Which of the three packages are installed. Each \<open>import\<close> that fails prints its message
  and calls \<open>exit(1)\<close>.
\<close>

record modules =
  chromadb_installed :: bool
  sklearn_installed :: bool
  umap_installed :: bool

definition import_modules :: "modules \<Rightarrow> world \<Rightarrow> (error + unit) \<times> world" where
  "import_modules m w =
     (if \<not> chromadb_installed m then (Inl (SystemExit 1), print (NotInstalled ''chromadb'') w)
      else if \<not> sklearn_installed m then
        (Inl (SystemExit 1), print (NotInstalled ''scikit-learn'') w)
      else if \<not> umap_installed m then (Inl (SystemExit 1), print (NotInstalled ''umap-learn'') w)
      else (Inr (), w))"

text \<open>
  The exit status of the Python process: 0 when the script returns, the argument of \<open>exit\<close>,
  and 1 for any other exception that nothing catches.
\<close>

definition exit_status :: "error + unit \<Rightarrow> nat" where
  "exit_status r = (case r of Inr u \<Rightarrow> 0 | Inl (SystemExit n) \<Rightarrow> n | Inl e \<Rightarrow> 1)"

subsection \<open>Contracts and sample inputs\<close>

text \<open>
  A library call keeps the rows of its input when its result, if it returns one, has as
  many rows as the input (\<open>fit_transform\<close> returns one row for each sample).
\<close>

definition keeps_rows :: "(matrix \<Rightarrow> error + matrix) \<Rightarrow> matrix \<Rightarrow> bool" where
  "keeps_rows f X = (case f X of Inl e \<Rightarrow> True | Inr Y \<Rightarrow> length Y = length X)"

text \<open>
  Two sample libraries to run the program on. The first projects every row on its first
  three coordinates and never raises. The second does the same but checks its arguments the
  way scikit-learn documents them: the number of components of PCA is at most the number
  of samples and at most the number of features, and the perplexity of t-SNE is less than
  the number of samples.
\<close>

definition truncating_libs :: libs where
  "truncating_libs =
     \<lparr>pca_fit_transform = (\<lambda>X. Inr (map (take 3) X)),
      umap_fit_transform = (\<lambda>X. Inr (map (take 3) X)),
      tsne_fit_transform = (\<lambda>p X. Inr (map (take 3) X))\<rparr>"

definition checking_libs :: libs where
  "checking_libs =
     \<lparr>pca_fit_transform =
        (\<lambda>X. if min (length X) (case X of [] \<Rightarrow> 0 | r # rs \<Rightarrow> length r) < 3 then Inl ValueError
             else Inr (map (take 3) X)),
      umap_fit_transform = (\<lambda>X. Inr (map (take 3) X)),
      tsne_fit_transform =
        (\<lambda>p X. if length X \<le> p then Inl ValueError else Inr (map (take 3) X))\<rparr>"

definition sample_collection :: get_result where
  "sample_collection =
     \<lparr>r_ids = [''a'', ''b''],
      r_embeddings = Some (numbers [[1, 0, 0, 0], [0, 1, 0, 0]]),
      r_documents = Some [''first'', ''second''],
      r_metadatas = Some [[(''kind'', SStr ''note'')], []]\<rparr>"

definition empty_collection :: get_result where
  "empty_collection =
     \<lparr>r_ids = [], r_embeddings = Some [], r_documents = Some [], r_metadatas = Some []\<rparr>"

definition sample_world :: world where
  "sample_world =
     \<lparr>collections = [(''conversations'', sample_collection), (''archive'', empty_collection)],
      files = Map.empty,
      stdout = []\<rparr>"

section \<open>Properties\<close>

subsection \<open>float64 arithmetic in range\<close>

lemma overflow_threshold_large: "1000 < overflow_threshold"
proof -
  have "(2::real) ^ 1024 = 2 ^ 54 * 2 ^ 970" by (simp add: power_add [symmetric])
  then have "overflow_threshold = (2 ^ 54 - 1) * 2 ^ 970"
    by (simp add: overflow_threshold_def algebra_simps)
  moreover have "(1::real) \<le> 2 ^ 970" by simp
  moreover have "(1000::real) < 2 ^ 54 - 1" by simp
  ultimately show ?thesis
    by (metis less_le_trans mult.right_neutral mult_left_mono less_imp_le zero_less_one
        order_less_trans zero_less_numeral)
qed

lemma overflow_in_range:
  "- overflow_threshold < r \<Longrightarrow> r < overflow_threshold \<Longrightarrow> overflow r = Finite r"
  by (simp add: overflow_def)

lemma overflow_small: "\<bar>r\<bar> \<le> 1000 \<Longrightarrow> overflow r = Finite r"
  using overflow_threshold_large by (intro overflow_in_range) linarith+



lemma fl_min_idem: "fl_min x x = x"
  by (cases x) simp_all

lemma fl_max_idem: "fl_max x x = x"
  by (cases x) simp_all

subsection \<open>Column minimum and maximum\<close>

lemma foldl_map2_length:
  "length r = k \<Longrightarrow> \<forall>row\<in>set rs. length row = k \<Longrightarrow> length (foldl (map2 f) r rs) = k"
  by (induction rs arbitrary: r) simp_all



lemma foldl_map2_const:
  assumes "length r = k" "\<forall>row\<in>set rs. length row = k" "j < k"
    and "r ! j = c" "\<forall>row\<in>set rs. row ! j = c" "\<And>a. f a a = a"
  shows "foldl (map2 f) r rs ! j = c"
  using assms(1,2,3,4,5)
proof (induction rs arbitrary: r)
  case Nil
  then show ?case by simp
next
  case (Cons x xs)
  let ?r = "map2 f r x"
  have len: "length ?r = k" using Cons.prems by simp
  have at: "?r ! j = c" using Cons.prems assms(6) by simp
  from Cons.IH [OF len _ _ at] Cons.prems show ?case by simp
qed


lemma column_const:
  assumes "\<forall>row\<in>set points. length row = k" "j < k"
    and "\<forall>row\<in>set points. row ! j = c"
    and "np_min_axis0 points = Inr mn" "np_max_axis0 points = Inr mx"
  shows "mn ! j = c \<and> mx ! j = c"
proof -
  from assms(4) obtain r rs where pts: "points = r # rs"
    by (cases points) (auto simp: np_min_axis0_def)
  have mn: "mn = foldl (map2 fl_min) r rs" and mx: "mx = foldl (map2 fl_max) r rs"
    using assms(4,5) by (simp_all add: np_min_axis0_def np_max_axis0_def pts)
  have lr: "length r = k" and lrs: "\<forall>row\<in>set rs. length row = k"
    and cr: "r ! j = c" and crs: "\<forall>row\<in>set rs. row ! j = c"
    using assms(1,3) pts by simp_all
  show ?thesis
    unfolding mn mx
    using foldl_map2_const [OF lr lrs assms(2) cr crs, of fl_min]
      foldl_map2_const [OF lr lrs assms(2) cr crs, of fl_max]
    by (simp add: fl_min_idem fl_max_idem)
qed

subsection \<open>Entries of the normalized matrix\<close>

lemma normalize_projection_entries:
  assumes ne: "points \<noteq> []" and rect: "\<forall>row\<in>set points. length row = k"
  obtains min_vals max_vals where
    "np_min_axis0 points = Inr min_vals" "np_max_axis0 points = Inr max_vals"
    "length min_vals = k" "length max_vals = k"
    "normalize_projection points scale =
       Inr (map (\<lambda>row. map (\<lambda>j.
              fl_mul (fl_sub (fl_div (fl_sub (row ! j) (min_vals ! j))
                                     (nonzero (fl_sub (max_vals ! j) (min_vals ! j))))
                             (Finite 0.5)) scale) [0..<k]) points)"
proof -
  from ne obtain r rs where pts: "points = r # rs" by (cases points) auto
  let ?mn = "foldl (map2 fl_min) r rs" and ?mx = "foldl (map2 fl_max) r rs"
  have lr: "length r = k" and lrs: "\<forall>row\<in>set rs. length row = k"
    using rect pts by simp_all
  have mn: "np_min_axis0 points = Inr ?mn" and mx: "np_max_axis0 points = Inr ?mx"
    by (simp_all add: np_min_axis0_def np_max_axis0_def pts)
  have lmn: "length ?mn = k" and lmx: "length ?mx = k"
    using lr lrs by (simp_all add: foldl_map2_length)
  have row_eq: "map (\<lambda>v. fl_mul v scale)
          (map (\<lambda>v. fl_sub v (Finite 0.5))
             (map2 fl_div (map2 fl_sub row ?mn) (nonzero_ranges ?mn ?mx))) =
        map (\<lambda>j. fl_mul (fl_sub (fl_div (fl_sub (row ! j) (?mn ! j))
                                     (nonzero (fl_sub (?mx ! j) (?mn ! j))))
                             (Finite 0.5)) scale) [0..<k]"
    if "row \<in> set points" for row
  proof -
    have "length row = k" using rect that by simp
    then show ?thesis
      using lmn lmx by (intro nth_equalityI) (simp_all add: nonzero_ranges_def)
  qed
  have "normalize_projection points scale =
       Inr (map (\<lambda>row. map (\<lambda>j.
              fl_mul (fl_sub (fl_div (fl_sub (row ! j) (?mn ! j))
                                     (nonzero (fl_sub (?mx ! j) (?mn ! j))))
                             (Finite 0.5)) scale) [0..<k]) points)"
    using row_eq by (simp add: normalize_projection_def mn mx Let_def)
  with mn mx lmn lmx show thesis by (rule that)
qed



lemma entry_collapsed:
  "fl_mul (fl_sub (fl_div (fl_sub (Finite c) (Finite c))
                          (nonzero (fl_sub (Finite c) (Finite c))))
                  (Finite 0.5)) scale = fl_mul (Finite (- 0.5)) scale"
  by (simp add: overflow_small nonzero_def)




text \<open>
  C3. For every non-empty matrix of 3 columns in which all rows hold the same number on
  some axis, the range the program computes for that axis is 0, it is replaced by 1 before
  the division, no error is raised, and every output value on that axis is -0.5 * scale
  (-20 at the default scale 40.0), not the NaN of \<open>0 / 0\<close>.
\<close>

theorem normalize_projection_zero_range:
  assumes ne: "points \<noteq> []" and rect: "\<forall>row\<in>set points. length row = 3"
    and a: "a < 3" and same: "\<forall>row\<in>set points. row ! a = Finite c"
  shows "\<exists>min_vals max_vals out.
           np_min_axis0 points = Inr min_vals \<and> np_max_axis0 points = Inr max_vals \<and>
           fl_sub (max_vals ! a) (min_vals ! a) = Finite 0 \<and>
           nonzero_ranges min_vals max_vals ! a = Finite 1 \<and>
           normalize_projection points scale = Inr out \<and> length out = length points \<and>
           (\<forall>i<length points. out ! i ! a =
              fl_mul (fl_sub (fl_div (fl_sub (points ! i ! a) (min_vals ! a)) (Finite 1))
                             (Finite 0.5)) scale) \<and>
           (\<forall>row\<in>set out. row ! a = fl_mul (Finite (- 0.5)) scale) \<and>
           (scale = Finite 40 \<longrightarrow> (\<forall>row\<in>set out. row ! a = Finite (- 20)))"
proof -
  from ne rect obtain mn mx where
    mn: "np_min_axis0 points = Inr mn" and mx: "np_max_axis0 points = Inr mx"
    and len: "length mn = 3" "length mx = 3"
    and n: "normalize_projection points scale =
       Inr (map (\<lambda>row. map (\<lambda>j.
              fl_mul (fl_sub (fl_div (fl_sub (row ! j) (mn ! j))
                                     (nonzero (fl_sub (mx ! j) (mn ! j))))
                             (Finite 0.5)) scale) [0..<3]) points)"
    by (rule normalize_projection_entries [where k = 3 and scale = scale])
  let ?out = "map (\<lambda>row. map (\<lambda>j.
              fl_mul (fl_sub (fl_div (fl_sub (row ! j) (mn ! j))
                                     (nonzero (fl_sub (mx ! j) (mn ! j))))
                             (Finite 0.5)) scale) [0..<3]) points"
  from column_const [OF rect a same mn mx] have eq: "mn ! a = Finite c" "mx ! a = Finite c"
    by simp_all
  have zero: "fl_sub (mx ! a) (mn ! a) = Finite 0"
    unfolding eq by (simp add: overflow_small)
  have one: "nonzero (fl_sub (mx ! a) (mn ! a)) = Finite 1"
    unfolding zero by (simp add: nonzero_def)
  have rng: "nonzero_ranges mn mx ! a = Finite 1"
    using len a one by (simp add: nonzero_ranges_def)
  have at: "?out ! i ! a =
      fl_mul (fl_sub (fl_div (fl_sub (points ! i ! a) (mn ! a)) (Finite 1)) (Finite 0.5)) scale"
    if "i < length points" for i
    using that a one by simp
  have len_out: "length ?out = length points" by simp
  have collapsed: "row ! a = fl_mul (Finite (- 0.5)) scale" if "row \<in> set ?out" for row
  proof -
    from that obtain i where i: "i < length ?out" "?out ! i = row"
      unfolding in_set_conv_nth by blast
    from i(1) have ip: "i < length points" by simp
    then have "points ! i \<in> set points" by simp
    with same have pc: "points ! i ! a = Finite c" by blast
    have "row ! a =
        fl_mul (fl_sub (fl_div (fl_sub (Finite c) (Finite c)) (Finite 1)) (Finite 0.5)) scale"
      using at [OF ip] i(2) pc eq(1) by simp
    also have "\<dots> = fl_mul (Finite (- 0.5)) scale"
      by (simp add: overflow_small)
    finally show ?thesis .
  qed
  have forty: "row ! a = Finite (- 20)" if "row \<in> set ?out" "scale = Finite 40" for row
  proof -
    have "fl_mul (Finite (- 0.5)) (Finite 40) = Finite (- 20)"
      by (simp add: overflow_small)
    with collapsed [OF that(1)] that(2) show ?thesis by simp
  qed
  have "np_min_axis0 points = Inr mn \<and> np_max_axis0 points = Inr mx \<and>
           fl_sub (mx ! a) (mn ! a) = Finite 0 \<and>
           nonzero_ranges mn mx ! a = Finite 1 \<and>
           normalize_projection points scale = Inr ?out \<and> length ?out = length points \<and>
           (\<forall>i<length points. ?out ! i ! a =
              fl_mul (fl_sub (fl_div (fl_sub (points ! i ! a) (mn ! a)) (Finite 1))
                             (Finite 0.5)) scale) \<and>
           (\<forall>row\<in>set ?out. row ! a = fl_mul (Finite (- 0.5)) scale) \<and>
           (scale = Finite 40 \<longrightarrow> (\<forall>row\<in>set ?out. row ! a = Finite (- 20)))"
    using mn mx zero rng n len_out at collapsed forty by (intro conjI allI impI ballI)
  then show ?thesis by blast
qed

theorem normalize_projection_zero_range_witness:
  "numbers [[1, 5, 2], [3, 5, - 6]] \<noteq> [] \<and>
   map length (numbers [[1, 5, 2], [3, 5, - 6]]) = [3, 3] \<and> (1::nat) < 3 \<and>
   map (\<lambda>row. row ! 1) (numbers [[1, 5, 2], [3, 5, - 6]]) = [Finite 5, Finite 5] \<and>
   nonzero_ranges (map Finite [1, 5, - 6]) (map Finite [3, 5, 2]) = map Finite [2, 1, 8] \<and>
   normalize_projection (numbers [[1, 5, 2], [3, 5, - 6]]) (Finite 10) =
     Inr (numbers [[- 5, - 5, 5], [5, - 5, - 5]])"
  using normalize_projection_zero_range [of "numbers [[1, 5, 2], [3, 5, - 6]]" 1 5 "Finite 10"]
  by (simp add: normalize_projection_def np_min_axis0_def np_max_axis0_def nonzero_ranges_def
      nonzero_def overflow_small)

subsection \<open>The store version writes only fresh cells\<close>

text \<open>
  C9. normalize_projection leaves the array it is given unchanged: after the call every
  cell of the store that existed before the call, the argument among them, holds the value
  it held before; what the function writes lies in cells allocated during the call. For a
  two-dimensional argument the result is that of the function on values.
\<close>

theorem normalize_projection_store_frame:
  assumes "points < length s"
  shows "take (length s) (snd (normalize_projection_store s points scale)) = s \<and>
         snd (normalize_projection_store s points scale) ! points = s ! points \<and>
         (\<forall>q<length s. snd (normalize_projection_store s points scale) ! q = s ! q) \<and>
         (\<forall>m. s ! points = Arr2 m \<longrightarrow>
            fst (normalize_projection_store s points scale) = normalize_projection m scale)"
proof -
  let ?s' = "snd (normalize_projection_store s points scale)"
  have t: "take (length s) ?s' = s"
    by (auto simp: normalize_projection_store_def alloc_def Let_def
        split: ndarray.splits sum.splits prod.splits)
  have n: "?s' ! q = s ! q" if "q < length s" for q
  proof -
    have "take (length s) ?s' ! q = ?s' ! q" using that by simp
    with t show ?thesis by simp
  qed
  have r: "fst (normalize_projection_store s points scale) = normalize_projection m scale"
    if "s ! points = Arr2 m" for m
    using that assms
    by (auto simp: normalize_projection_store_def normalize_projection_def alloc_def vec_at_def
        mat_at_def nonzero_ranges_def Let_def nth_append
        split: sum.splits prod.splits)
  from t n r assms show ?thesis by simp
qed

theorem normalize_projection_store_frame_witness:
  "(0::nat) < length [Arr2 (numbers [[1, 5, 2], [3, 5, - 6]])] \<and>
   normalize_projection_store [Arr2 (numbers [[1, 5, 2], [3, 5, - 6]])] 0 (Finite 40) =
     (Inr (numbers [[- 20, - 20, 20], [20, - 20, - 20]]),
      [Arr2 (numbers [[1, 5, 2], [3, 5, - 6]]), Arr1 (map Finite [1, 5, - 6]),
       Arr1 (map Finite [3, 5, 2]), Arr1 (map Finite [2, 1, 8]),
       Arr2 (numbers [[0, 0, 8], [2, 0, 0]]), Arr2 (numbers [[0, 0, 1], [1, 0, 0]]),
       Arr2 (numbers [[- 20, - 20, 20], [20, - 20, - 20]])])"
  using normalize_projection_store_frame
    [of 0 "[Arr2 (numbers [[1, 5, 2], [3, 5, - 6]])]" "Finite 40"]
  by (simp add: normalize_projection_store_def np_min_axis0_def np_max_axis0_def alloc_def
      vec_at_def mat_at_def nonzero_def overflow_small)

subsection \<open>compute_projections\<close>

lemma normalize_projection_length:
  "normalize_projection points scale = Inr out \<Longrightarrow> length out = length points \<and> points \<noteq> []"
  by (auto simp: normalize_projection_def np_min_axis0_def np_max_axis0_def Let_def
      split: sum.splits list.splits)

lemma compute_projections_Inr:
  assumes "compute_projections L X out = (Inr pr, out')"
  obtains P U T pn un tn where
    "pca_fit_transform L X = Inr P" "normalize_projection P (Finite 40) = Inr pn"
    "umap_fit_transform L X = Inr U" "normalize_projection U (Finite 40) = Inr un"
    "tsne_fit_transform L (perplexity (length X)) X = Inr T"
    "normalize_projection T (Finite 40) = Inr tn"
    "pr = [(''pca'', pn), (''umap'', un), (''tsne'', tn)]"
  using assms
  by (auto simp: compute_projections_def Let_def split: sum.splits)

text \<open>
  C8. For N rows, N at least 1, the perplexity that compute_projections passes to t-SNE is
  min(30, max(5, N // 5)): 5 when N // 5 < 5, 30 when N // 5 > 30, and N // 5 otherwise.
  Once PCA and UMAP have returned and their results are normalized, what
  compute_projections returns is decided by the t-SNE call at exactly that perplexity: its
  exception, or its normalized result under the key tsne; the t-SNE calls at other
  perplexities have no influence.
\<close>

theorem perplexity_clamp:
  assumes "1 \<le> n" and "length embeddings = n"
    and "pca_fit_transform L embeddings = Inr P" "normalize_projection P (Finite 40) = Inr pn"
    and "umap_fit_transform L embeddings = Inr U" "normalize_projection U (Finite 40) = Inr un"
  shows "fst (compute_projections L embeddings out) =
           (case tsne_fit_transform L (min 30 (max 5 (n div 5))) embeddings of
              Inl e \<Rightarrow> Inl e
            | Inr T \<Rightarrow>
                (case normalize_projection T (Finite 40) of
                   Inl e \<Rightarrow> Inl e
                 | Inr tn \<Rightarrow> Inr [(''pca'', pn), (''umap'', un), (''tsne'', tn)])) \<and>
         perplexity n = min 30 (max 5 (n div 5)) \<and>
         (n div 5 < 5 \<longrightarrow> perplexity n = 5) \<and>
         (30 < n div 5 \<longrightarrow> perplexity n = 30) \<and>
         (5 \<le> n div 5 \<and> n div 5 \<le> 30 \<longrightarrow> perplexity n = n div 5)"
  using assms
  by (auto simp: compute_projections_def perplexity_def Let_def split: sum.splits)

theorem perplexity_clamp_witness:
  "(1::nat) \<le> 2 \<and> length (numbers [[1, 0, 0, 0], [0, 1, 0, 0]]) = 2 \<and>
   pca_fit_transform truncating_libs (numbers [[1, 0, 0, 0], [0, 1, 0, 0]]) =
     Inr (numbers [[1, 0, 0], [0, 1, 0]]) \<and>
   normalize_projection (numbers [[1, 0, 0], [0, 1, 0]]) (Finite 40) =
     Inr (numbers [[20, - 20, - 20], [- 20, 20, - 20]]) \<and>
   perplexity 2 = 5 \<and>
   fst (compute_projections
     (truncating_libs\<lparr>tsne_fit_transform :=
        \<lambda>p X. if p = 5 then Inl (LibraryError ''called with 5'') else Inr (map (take 3) X)\<rparr>)
     (numbers [[1, 0, 0, 0], [0, 1, 0, 0]]) []) = Inl (LibraryError ''called with 5'')"
proof -
  let ?X = "numbers [[1, 0, 0, 0], [0, 1, 0, 0]]"
  let ?L = "truncating_libs\<lparr>tsne_fit_transform :=
        \<lambda>p X. if p = 5 then Inl (LibraryError ''called with 5'') else Inr (map (take 3) X)\<rparr>"
  have n: "normalize_projection (numbers [[1, 0, 0], [0, 1, 0]]) (Finite 40) =
     Inr (numbers [[20, - 20, - 20], [- 20, 20, - 20]])"
    by (simp add: normalize_projection_def np_min_axis0_def np_max_axis0_def nonzero_ranges_def
        nonzero_def overflow_small)
  have p: "pca_fit_transform ?L ?X = Inr (numbers [[1, 0, 0], [0, 1, 0]])"
    and u: "umap_fit_transform ?L ?X = Inr (numbers [[1, 0, 0], [0, 1, 0]])"
    and p': "pca_fit_transform truncating_libs ?X = Inr (numbers [[1, 0, 0], [0, 1, 0]])"
    by (simp_all add: truncating_libs_def)
  from perplexity_clamp [OF _ _ p n u n, of 2 "[]"] n p'
  show ?thesis by (simp add: perplexity_def)
qed

text \<open>
  C2. The claim is that one document is projected without an exception. The program asks
  PCA for 3 components of the one sample and passes perplexity \<open>min(30, max(5, 1 // 5)) = 5\<close>
  to t-SNE, which is not less than the number of samples. With a library that checks these
  arguments the way scikit-learn documents them, compute_projections raises ValueError at
  the first call, PCA, and the t-SNE call with the perplexity of the program would raise
  as well.
\<close>

theorem compute_projections_single_document_raises:
  "compute_projections checking_libs (numbers [[1, 0, 0, 0]]) [] =
     (Inl ValueError, [ComputingProjections 1, ComputingPCA]) \<and>
   perplexity 1 = 5 \<and>
   tsne_fit_transform checking_libs (perplexity 1) (numbers [[1, 0, 0, 0]]) = Inl ValueError"
  by (simp add: compute_projections_def checking_libs_def perplexity_def)

subsection \<open>export_chromadb\<close>

lemma np_array_cases: "np_array X = Inr X \<or> np_array X = Inl ValueError"
  by (simp add: np_array_def split: list.splits)

lemma export_found:
  assumes "map_of (collections w) cn = Some c"
    and "np_array (case r_embeddings (fetch c limit) of None \<Rightarrow> [] | Some e \<Rightarrow> e) =
           Inr (case r_embeddings (fetch c limit) of None \<Rightarrow> [] | Some e \<Rightarrow> e)"
  shows "export_chromadb L p cn outf limit skip w =
    (let data = fetch c limit;
         embs = (case r_embeddings data of None \<Rightarrow> [] | Some e \<Rightarrow> e);
         out0 = stdout w @ [Connecting p, FoundCollection cn (length (r_ids c)),
                  ExportingDocuments (length (r_ids data))]
     in if \<not> skip \<and> embs \<noteq> [] then
          (case compute_projections L embs out0 of
             (Inl e, out) \<Rightarrow> (Inl e, w\<lparr>stdout := out\<rparr>)
           | (Inr pr, out) \<Rightarrow>
               (Inr (), w\<lparr>files := (files w)(outf \<mapsto> (build_output data)\<lparr>e_projections := Some pr\<rparr>),
                          stdout := out @ [ExportedTo outf]\<rparr>))
        else (Inr (), w\<lparr>files := (files w)(outf \<mapsto> build_output data),
                         stdout := out0 @ [SkippingProjections, ExportedTo outf]\<rparr>))"
  using assms
  by (auto simp: export_chromadb_def print_def write_output_def Let_def
      split: sum.splits prod.splits)

lemma export_ragged:
  assumes "map_of (collections w) cn = Some c"
    and "np_array (case r_embeddings (fetch c limit) of None \<Rightarrow> [] | Some e \<Rightarrow> e) = Inl e"
  shows "fst (export_chromadb L p cn outf limit skip w) = Inl e"
  using assms
  by (simp add: export_chromadb_def print_def Let_def)

lemma export_returns_rectangular:
  assumes "map_of (collections w) cn = Some c"
    and "export_chromadb L p cn outf limit skip w = (Inr (), w')"
  shows "np_array (case r_embeddings (fetch c limit) of None \<Rightarrow> [] | Some e \<Rightarrow> e) =
           Inr (case r_embeddings (fetch c limit) of None \<Rightarrow> [] | Some e \<Rightarrow> e)"
proof -
  let ?embs = "case r_embeddings (fetch c limit) of None \<Rightarrow> [] | Some e \<Rightarrow> e"
  from np_array_cases [of ?embs] show ?thesis
  proof
    assume "np_array ?embs = Inl ValueError"
    from export_ragged [OF assms(1) this, of L p outf skip] assms(2) show ?thesis by simp
  qed
qed

lemma build_output_shape:
  "length (e_documents (build_output data)) = length (r_ids data) \<and>
   h_count (e_metadata (build_output data)) = length (r_ids data) \<and>
   e_projections (build_output data) = None"
  by (simp add: build_output_def Let_def)

lemma map_py_float: "map py_float xs = xs"
  by (induction xs) (simp_all add: py_float_def)

lemma build_output_embedding:
  assumes "r_embeddings data = Some embs" "i < length (r_ids data)" "i < length embs"
  shows "d_embedding (e_documents (build_output data) ! i) = embs ! i"
  using assms by (simp add: build_output_def Let_def map_py_float)

lemma sample_world_conversations:
  "map_of (collections sample_world) ''conversations'' = Some sample_collection"
  by (simp add: sample_world_def)

lemma sample_world_archive:
  "map_of (collections sample_world) ''archive'' = Some empty_collection"
  by (simp add: sample_world_def)

lemma sample_rectangular:
  "np_array (case r_embeddings (fetch sample_collection limit) of None \<Rightarrow> [] | Some e \<Rightarrow> e) =
     Inr (case r_embeddings (fetch sample_collection limit) of None \<Rightarrow> [] | Some e \<Rightarrow> e)"
proof (cases "truthy limit")
  case False
  then show ?thesis
    by (simp add: fetch_def collection_get_def sample_collection_def np_array_def)
next
  case True
  then obtain l where l: "limit = Some l" by (cases limit) (auto simp: truthy_def)
  have "nat l = 0 \<or> nat l = 1 \<or> 2 \<le> nat l" by arith
  then show ?thesis
    using True l
    by (auto simp: fetch_def collection_get_def sample_collection_def np_array_def)
qed

lemma sample_projections:
  "compute_projections truncating_libs (numbers [[1, 0, 0, 0], [0, 1, 0, 0]]) out =
     (Inr [(''pca'', numbers [[20, - 20, - 20], [- 20, 20, - 20]]),
           (''umap'', numbers [[20, - 20, - 20], [- 20, 20, - 20]]),
           (''tsne'', numbers [[20, - 20, - 20], [- 20, 20, - 20]])],
      out @ [ComputingProjections 2, ComputingPCA, PCADone, ComputingUMAP, UMAPDone,
             ComputingTSNE, TSNEDone])"
  by (simp add: compute_projections_def truncating_libs_def normalize_projection_def
      np_min_axis0_def np_max_axis0_def nonzero_ranges_def nonzero_def overflow_small
      perplexity_def)

text \<open>
  C4. In a run that completes, with projections not skipped, on fetched sequences of ids,
  embeddings, texts and metadata of the same length N, N at least 1, and with library calls
  that return one row for each row of their input, the file written holds N documents, its
  metadata count is N, and each of the three projections pca, umap, tsne has N rows.
\<close>

theorem export_alignment:
  assumes coll: "map_of (collections w) cn = Some c"
    and embs: "r_embeddings (fetch c limit) = Some embs"
    and docs: "r_documents (fetch c limit) = Some docs"
    and metas: "r_metadatas (fetch c limit) = Some metas"
    and aligned: "length embs = N" "length docs = N" "length metas = N"
      "length (r_ids (fetch c limit)) = N"
    and N: "1 \<le> N"
    and libs: "keeps_rows (pca_fit_transform L) embs" "keeps_rows (umap_fit_transform L) embs"
      "keeps_rows (tsne_fit_transform L (perplexity N)) embs"
    and run: "export_chromadb L p cn outf limit False w = (Inr (), w')"
  shows "\<exists>e pr. files w' outf = Some e \<and> length (e_documents e) = N \<and>
           h_count (e_metadata e) = N \<and> e_projections e = Some pr \<and>
           map fst pr = [''pca'', ''umap'', ''tsne''] \<and>
           (\<forall>m pts. (m, pts) \<in> set pr \<longrightarrow> length pts = N)"
proof -
  let ?data = "fetch c limit"
  let ?out0 = "stdout w @ [Connecting p, FoundCollection cn (length (r_ids c)),
                  ExportingDocuments (length (r_ids ?data))]"
  have ne: "embs \<noteq> []" using aligned(1) N by auto
  note found = export_found [OF coll export_returns_rectangular [OF coll run]]
  from run obtain pr out where
    cp: "compute_projections L embs ?out0 = (Inr pr, out)"
    and w': "w' = w\<lparr>files := (files w)(outf \<mapsto> (build_output ?data)\<lparr>e_projections := Some pr\<rparr>),
                          stdout := out @ [ExportedTo outf]\<rparr>"
    unfolding found
    by (auto simp: Let_def embs ne split: sum.splits prod.splits)
  from cp obtain P U T pn un tn where
    r: "pca_fit_transform L embs = Inr P" "normalize_projection P (Finite 40) = Inr pn"
    "umap_fit_transform L embs = Inr U" "normalize_projection U (Finite 40) = Inr un"
    "tsne_fit_transform L (perplexity (length embs)) embs = Inr T"
    "normalize_projection T (Finite 40) = Inr tn"
    and pr: "pr = [(''pca'', pn), (''umap'', un), (''tsne'', tn)]"
    by (rule compute_projections_Inr)
  have "length P = N" "length U = N" "length T = N"
    using libs r aligned(1) by (simp_all add: keeps_rows_def)
  then have "length pn = N" "length un = N" "length tn = N"
    using r normalize_projection_length by auto
  then show ?thesis
    using w' pr aligned(4) by (auto simp: build_output_shape)
qed

theorem export_alignment_witness:
  "map_of (collections sample_world) ''conversations'' = Some sample_collection \<and>
   r_embeddings (fetch sample_collection None) = Some (numbers [[1, 0, 0, 0], [0, 1, 0, 0]]) \<and>
   keeps_rows (pca_fit_transform truncating_libs) (numbers [[1, 0, 0, 0], [0, 1, 0, 0]]) \<and>
   fst (export_chromadb truncating_libs ''chroma'' ''conversations'' ''out.json'' None False
          sample_world) = Inr () \<and>
   (\<exists>e pr. files (snd (export_chromadb truncating_libs ''chroma'' ''conversations''
                ''out.json'' None False sample_world)) ''out.json'' = Some e \<and>
      length (e_documents e) = 2 \<and> h_count (e_metadata e) = 2 \<and>
      e_projections e = Some pr \<and> map fst pr = [''pca'', ''umap'', ''tsne''] \<and>
      (\<forall>m pts. (m, pts) \<in> set pr \<longrightarrow> length pts = 2))"
proof -
  let ?run = "export_chromadb truncating_libs ''chroma'' ''conversations'' ''out.json'' None
                False sample_world"
  let ?X = "numbers [[1, 0, 0, 0], [0, 1, 0, 0]]"
  have f: "fetch sample_collection None = sample_collection"
    by (simp add: fetch_def truthy_def collection_get_def)
  have e: "r_embeddings (fetch sample_collection None) = Some ?X"
    and d: "r_documents (fetch sample_collection None) = Some [''first'', ''second'']"
    and m: "r_metadatas (fetch sample_collection None) = Some [[(''kind'', SStr ''note'')], []]"
    and i: "length (r_ids (fetch sample_collection None)) = 2"
    unfolding f by (simp_all add: sample_collection_def)
  have k: "keeps_rows (pca_fit_transform truncating_libs) ?X"
    "keeps_rows (umap_fit_transform truncating_libs) ?X"
    "keeps_rows (tsne_fit_transform truncating_libs (perplexity 2)) ?X"
    by (simp_all add: keeps_rows_def truncating_libs_def)
  have r: "fst ?run = Inr ()"
    using sample_projections
    by (simp add: export_found [OF sample_world_conversations sample_rectangular] Let_def e)
  then have run: "?run = (Inr (), snd ?run)" by (metis prod.collapse)
  from export_alignment [OF sample_world_conversations e d m _ _ _ i _ k run]
    sample_world_conversations e k(1) r
  show ?thesis by simp
qed

text \<open>
  C5. For a collection without entries the run completes, whatever the limit, the skip flag
  and the libraries (they are not called): the file written has no documents, no
  projections key and count 0.
\<close>

theorem export_empty_collection:
  assumes coll: "map_of (collections w) cn = Some c"
    and ids: "r_ids c = []"
    and embs: "r_embeddings c = None \<or> r_embeddings c = Some []"
  shows "\<exists>w' e. export_chromadb L p cn outf limit skip w = (Inr (), w') \<and>
           files w' outf = Some e \<and> e_documents e = [] \<and> e_projections e = None \<and>
           h_count (e_metadata e) = 0 \<and>
           stdout w' = stdout w @ [Connecting p, FoundCollection cn 0, ExportingDocuments 0,
             SkippingProjections, ExportedTo outf]"
proof -
  have d: "r_ids (fetch c limit) = []"
    "r_embeddings (fetch c limit) = None \<or> r_embeddings (fetch c limit) = Some []"
    using ids embs by (auto simp: fetch_def collection_get_def split: option.splits)
  from d(2) have e: "(case r_embeddings (fetch c limit) of None \<Rightarrow> [] | Some e \<Rightarrow> e) = []"
    by auto
  have rect: "np_array (case r_embeddings (fetch c limit) of None \<Rightarrow> [] | Some e \<Rightarrow> e) =
           Inr (case r_embeddings (fetch c limit) of None \<Rightarrow> [] | Some e \<Rightarrow> e)"
    unfolding e by (simp add: np_array_def)
  show ?thesis
    unfolding export_found [OF coll rect]
    using build_output_shape [of "fetch c limit"]
    by (simp add: Let_def e d(1) ids)
qed

theorem export_empty_collection_witness:
  "map_of (collections sample_world) ''archive'' = Some empty_collection \<and>
   r_ids empty_collection = [] \<and> r_embeddings empty_collection = Some [] \<and>
   fst (export_chromadb checking_libs ''chroma'' ''archive'' ''out.json'' None False
          sample_world) = Inr () \<and>
   map_option e_documents
     (files (snd (export_chromadb checking_libs ''chroma'' ''archive'' ''out.json'' None False
        sample_world)) ''out.json'') = Some [] \<and>
   map_option e_projections
     (files (snd (export_chromadb checking_libs ''chroma'' ''archive'' ''out.json'' None False
        sample_world)) ''out.json'') = Some None"
proof -
  have i: "r_ids empty_collection = []" and e: "r_embeddings empty_collection = Some []"
    by (simp_all add: empty_collection_def)
  from export_empty_collection [OF sample_world_archive i disjI2 [OF e],
      of checking_libs "''chroma''" "''out.json''" None False]
    sample_world_archive i e
  show ?thesis by auto
qed

text \<open>
  C6, as the program has it. When the named collection does not exist, the run prints the
  error and the names of the collections that exist and ends with exit status 1, which is
  not zero, and writes no file: the files after the run are the files before it. The
  status 1 is not particular to this failure.
\<close>

theorem export_missing_collection:
  assumes "map_of (collections w) cn = None"
  shows "\<exists>w'. export_chromadb L p cn outf limit skip w = (Inl (SystemExit 1), w') \<and>
           exit_status (fst (export_chromadb L p cn outf limit skip w)) = 1 \<and>
           files w' = files w \<and> collections w' = collections w \<and>
           stdout w' = stdout w @ [Connecting p, CouldNotGetCollection cn,
             AvailableCollections (map fst (collections w))]"
  using assms by (simp add: export_chromadb_def print_def Let_def exit_status_def)

theorem export_missing_collection_witness:
  "map_of (collections sample_world) ''memories'' = None \<and>
   export_chromadb truncating_libs ''chroma'' ''memories'' ''out.json'' None False sample_world =
     (Inl (SystemExit 1),
      sample_world\<lparr>stdout := [Connecting ''chroma'', CouldNotGetCollection ''memories'',
         AvailableCollections [''conversations'', ''archive'']]\<rparr>)"
proof -
  have n: "map_of (collections sample_world) ''memories'' = None"
    by (simp add: sample_world_def)
  from export_missing_collection [OF n, of truncating_libs "''chroma''" "''out.json''" None False] n
  show ?thesis by (auto simp: sample_world_def)
qed

text \<open>
  The exit status of the missing collection is not distinct: a package that is not
  installed ends the script with the same status 1 (lines 26, 33, 39), and so does an
  exception of a library that nothing catches.
\<close>

theorem export_missing_collection_status_shared:
  "exit_status (fst (export_chromadb truncating_libs ''chroma'' ''memories'' ''out.json'' None
      False sample_world)) = 1 \<and>
   exit_status (fst (import_modules
      \<lparr>chromadb_installed = False, sklearn_installed = True, umap_installed = True\<rparr>
      sample_world)) = 1 \<and>
   exit_status (fst (import_modules
      \<lparr>chromadb_installed = True, sklearn_installed = True, umap_installed = False\<rparr>
      sample_world)) = 1 \<and>
   exit_status (fst (export_chromadb checking_libs ''chroma'' ''conversations'' ''out.json'' None
      False sample_world)) = 1"
  by (simp add: export_chromadb_def import_modules_def exit_status_def print_def Let_def
      sample_world_def sample_collection_def fetch_def truthy_def collection_get_def
      np_array_def compute_projections_def checking_libs_def)

text \<open>
  C7. In a run that completes on N fetched ids, N at least 1, the embedding of the document
  at index i in the file written is the fetched embedding at index i, value for value in the
  same order; when there are N fetched embeddings, the embeddings of the documents are
  exactly the fetched embeddings.
\<close>

theorem export_embeddings_round_trip:
  assumes coll: "map_of (collections w) cn = Some c"
    and embs: "r_embeddings (fetch c limit) = Some embs"
    and N: "length (r_ids (fetch c limit)) = N" "1 \<le> N"
    and run: "export_chromadb L p cn outf limit skip w = (Inr (), w')"
  shows "\<exists>e. files w' outf = Some e \<and> length (e_documents e) = N \<and>
           (\<forall>i. i < N \<and> i < length embs \<longrightarrow> d_embedding (e_documents e ! i) = embs ! i) \<and>
           (length embs = N \<longrightarrow> map d_embedding (e_documents e) = embs)"
proof -
  let ?data = "fetch c limit"
  note found = export_found [OF coll export_returns_rectangular [OF coll run]]
  from run obtain e where f: "files w' outf = Some e"
    and docs: "e_documents e = e_documents (build_output ?data)"
    unfolding found
    by (auto simp: Let_def split: sum.splits prod.splits if_splits)
  have len: "length (e_documents e) = N" using docs N by (simp add: build_output_shape)
  have at: "d_embedding (e_documents e ! i) = embs ! i" if "i < N" "i < length embs" for i
    using build_output_embedding [OF embs] that N docs by simp
  have "map d_embedding (e_documents e) = embs" if "length embs = N"
    using that len at by (intro nth_equalityI) simp_all
  with f len at show ?thesis by blast
qed

theorem export_embeddings_round_trip_witness:
  "r_embeddings (fetch sample_collection (Some 1)) = Some (numbers [[1, 0, 0, 0]]) \<and>
   length (r_ids (fetch sample_collection (Some 1))) = 1 \<and>
   fst (export_chromadb truncating_libs ''chroma'' ''conversations'' ''out.json'' (Some 1) True
          sample_world) = Inr () \<and>
   map_option (\<lambda>e. map d_embedding (e_documents e))
     (files (snd (export_chromadb truncating_libs ''chroma'' ''conversations'' ''out.json''
        (Some 1) True sample_world)) ''out.json'') = Some (numbers [[1, 0, 0, 0]])"
proof -
  let ?run = "export_chromadb truncating_libs ''chroma'' ''conversations'' ''out.json'' (Some 1)
                True sample_world"
  have e: "r_embeddings (fetch sample_collection (Some 1)) = Some (numbers [[1, 0, 0, 0]])"
    and i: "length (r_ids (fetch sample_collection (Some 1))) = 1"
    by (simp_all add: fetch_def truthy_def collection_get_def sample_collection_def)
  have r: "fst ?run = Inr ()"
    by (simp add: export_found [OF sample_world_conversations sample_rectangular] Let_def)
  then have run: "?run = (Inr (), snd ?run)" by (metis prod.collapse)
  from export_embeddings_round_trip [OF sample_world_conversations e i _ run] e i r
  show ?thesis by auto
qed

text \<open>
  C10. With limit = 0 the fetch is the one without a limit: the whole collection is
  fetched, and the run is the run with limit unset.
\<close>

theorem limit_zero_is_unset:
  "fetch c (Some 0) = c \<and> fetch c None = c \<and>
   export_chromadb L p cn outf (Some 0) skip w = export_chromadb L p cn outf None skip w"
proof -
  have feq: "fetch c' (Some 0) = fetch c' None" for c'
    by (simp add: fetch_def truthy_def)
  have "export_chromadb L p cn outf (Some 0) skip w = export_chromadb L p cn outf None skip w"
    unfolding export_chromadb_def feq by (rule refl)
  then show ?thesis by (simp add: fetch_def truthy_def collection_get_def)
qed

theorem limit_zero_is_unset_witness:
  "r_ids (fetch sample_collection (Some 0)) = [''a'', ''b''] \<and>
   r_ids (fetch sample_collection (Some 1)) = [''a''] \<and>
   map_option (\<lambda>e. map d_id (e_documents e))
     (files (snd (export_chromadb truncating_libs ''chroma'' ''conversations'' ''out.json''
        (Some 0) True sample_world)) ''out.json'') = Some [''a'', ''b'']"
proof -
  have "map_option (\<lambda>e. map d_id (e_documents e))
     (files (snd (export_chromadb truncating_libs ''chroma'' ''conversations'' ''out.json''
        None True sample_world)) ''out.json'') = Some [''a'', ''b'']"
    by (simp add: export_found [OF sample_world_conversations sample_rectangular] Let_def
        fetch_def truthy_def collection_get_def build_output_def sample_collection_def)
  with limit_zero_is_unset [of sample_collection truncating_libs "''chroma''" "''conversations''"
      "''out.json''" True sample_world]
  show ?thesis
    by (simp add: fetch_def truthy_def collection_get_def sample_collection_def)
qed

end
